theory Spec2Isabelle
  imports Main "HOL-Library.Word"
begin

unbundle bit_operations_syntax

section \<open>Data model of the rotation engine\<close>

text \<open>
  Package \<open>secrets\<close>: \<open>SecretValue\<close> is a byte slice, a \<open>Secret\<close> carries its
  identifier, value, creation time and the active flag. \<open>time.Time\<close> is a count of
  nanoseconds and \<open>time.Duration\<close> a signed count of nanoseconds; both are integers
  here. The one negation of a duration, in \<open>cleanupOldSecrets\<close>, is of a positive one.
\<close>

type_synonym byte = "8 word"

record Secret =
  ID :: string
  Value :: "byte list"
  CreatedAt :: int
  Active :: bool

record RotationPolicy =
  RotationInterval :: int
  GracePeriod :: int

text \<open>Package \<open>storage\<close>: the record a backend hands back.\<close>

record StoredSecret =
  StoredID :: string
  StoredValue :: "byte list"
  StoredCreatedAt :: int

text \<open>
  Go errors as values. \<open>New\<close> is \<open>errors.New\<close> or a \<open>fmt.Errorf\<close> without \<open>%w\<close>,
  \<open>Errorf p e\<close> is \<open>fmt.Errorf(p + ": %w", e)\<close>, \<open>External\<close> is an error produced by
  a collaborator (generator, store, JSON or base64 codec). The last three constructors are
  the JWT library's \<open>ErrInvalidKeyType\<close> and \<open>ErrSignatureInvalid\<close> and its
  \<open>ValidationError\<close> with the fields \<open>Inner\<close>, \<open>Errors\<close> (a bit field) and \<open>text\<close>.
\<close>

datatype error =
    New string
  | Errorf string error
  | External string
  | ErrInvalidKeyType
  | ErrSignatureInvalid
  | ValidationError "error option" "32 word" string

text \<open>
  The fields of \<open>RotationManager\<close> that hold data. The notifier is an interface value that
  may be nil; the generator and the store are collaborators whose answers are given to
  each operation in a \<open>World\<close>.
\<close>

record RotationManager =
  activeSecret :: "Secret option"
  previousSecrets :: "Secret list"
  policy :: RotationPolicy
  autoRotate :: bool
  notifier :: bool

text \<open>
  What one call of \<open>generateAndStoreSecret\<close> followed by \<open>cleanupOldSecrets\<close> sees of the
  outside: the answer of \<open>generator.Generate()\<close>, the answer of \<open>storage.Store\<close> for the
  arguments it is given (\<open>None\<close> is a nil error), and the two readings of \<open>time.Now()\<close>.
\<close>

record World =
  Generate :: "error + byte list"
  Store :: "string \<Rightarrow> byte list \<Rightarrow> int \<Rightarrow> error option"
  nowCreate :: int
  nowCleanup :: int

text \<open>Calls made on the notifier, in order.\<close>

datatype event = NotifyError error | NotifyRotation Secret

section \<open>The secret identifier function\<close>

subsection \<open>SHA-256 and HMAC, as \<open>crypto/sha256\<close> and \<open>crypto/hmac\<close> compute them\<close>

text \<open>The round constants, eight to a row.\<close>

definition sha256_K :: "32 word list" where
  "sha256_K =
     [0x428a2f98, 0x71374491, 0xb5c0fbcf, 0xe9b5dba5, 0x3956c25b, 0x59f111f1, 0x923f82a4, 0xab1c5ed5] @
     [0xd807aa98, 0x12835b01, 0x243185be, 0x550c7dc3, 0x72be5d74, 0x80deb1fe, 0x9bdc06a7, 0xc19bf174] @
     [0xe49b69c1, 0xefbe4786, 0x0fc19dc6, 0x240ca1cc, 0x2de92c6f, 0x4a7484aa, 0x5cb0a9dc, 0x76f988da] @
     [0x983e5152, 0xa831c66d, 0xb00327c8, 0xbf597fc7, 0xc6e00bf3, 0xd5a79147, 0x06ca6351, 0x14292967] @
     [0x27b70a85, 0x2e1b2138, 0x4d2c6dfc, 0x53380d13, 0x650a7354, 0x766a0abb, 0x81c2c92e, 0x92722c85] @
     [0xa2bfe8a1, 0xa81a664b, 0xc24b8b70, 0xc76c51a3, 0xd192e819, 0xd6990624, 0xf40e3585, 0x106aa070] @
     [0x19a4c116, 0x1e376c08, 0x2748774c, 0x34b0bcb5, 0x391c0cb3, 0x4ed8aa4a, 0x5b9cca4f, 0x682e6ff3] @
     [0x748f82ee, 0x78a5636f, 0x84c87814, 0x8cc70208, 0x90befffa, 0xa4506ceb, 0xbef9a3f7, 0xc67178f2]"

definition sha256_init :: "32 word list" where
  "sha256_init =
    [0x6a09e667, 0xbb67ae85, 0x3c6ef372, 0xa54ff53a, 0x510e527f, 0x9b05688c, 0x1f83d9ab, 0x5be0cd19]"

definition bsig0 :: "32 word \<Rightarrow> 32 word" where
  "bsig0 x = word_rotr 2 x XOR word_rotr 13 x XOR word_rotr 22 x"

definition bsig1 :: "32 word \<Rightarrow> 32 word" where
  "bsig1 x = word_rotr 6 x XOR word_rotr 11 x XOR word_rotr 25 x"

definition ssig0 :: "32 word \<Rightarrow> 32 word" where
  "ssig0 x = word_rotr 7 x XOR word_rotr 18 x XOR drop_bit 3 x"

definition ssig1 :: "32 word \<Rightarrow> 32 word" where
  "ssig1 x = word_rotr 17 x XOR word_rotr 19 x XOR drop_bit 10 x"

definition ch :: "32 word \<Rightarrow> 32 word \<Rightarrow> 32 word \<Rightarrow> 32 word" where
  "ch x y z = (x AND y) XOR (NOT x AND z)"

definition maj :: "32 word \<Rightarrow> 32 word \<Rightarrow> 32 word \<Rightarrow> 32 word" where
  "maj x y z = (x AND y) XOR (x AND z) XOR (y AND z)"

fun be32 :: "byte list \<Rightarrow> 32 word" where
  "be32 (a # b # c # d # _) =
     push_bit 24 (ucast a) OR push_bit 16 (ucast b) OR push_bit 8 (ucast c) OR ucast d"
| "be32 _ = 0"

fun words_of :: "nat \<Rightarrow> byte list \<Rightarrow> 32 word list" where
  "words_of 0 bs = []"
| "words_of (Suc n) bs = be32 bs # words_of n (drop 4 bs)"

fun expand :: "nat \<Rightarrow> 32 word list \<Rightarrow> 32 word list" where
  "expand 0 w = w"
| "expand (Suc n) w =
     (let t = length w in
      expand n (w @ [ssig1 (w ! (t - 2)) + w ! (t - 7) + ssig0 (w ! (t - 15)) + w ! (t - 16)]))"

fun round :: "32 word list \<Rightarrow> 32 word \<times> 32 word \<Rightarrow> 32 word list" where
  "round [a, b, c, d, e, f, g, h] (k, w) =
     (let t1 = h + bsig1 e + ch e f g + k + w;
          t2 = bsig0 a + maj a b c
      in [t1 + t2, a, b, c, d + t1, e, f, g])"
| "round st _ = st"

definition block :: "32 word list \<Rightarrow> byte list \<Rightarrow> 32 word list" where
  "block hs bs =
     map2 (+) hs (foldl round hs (zip sha256_K (expand 48 (words_of 16 bs))))"

fun be_bytes :: "nat \<Rightarrow> nat \<Rightarrow> byte list" where
  "be_bytes 0 v = []"
| "be_bytes (Suc n) v = be_bytes n (v div 256) @ [of_nat (v mod 256)]"

definition pad :: "byte list \<Rightarrow> byte list" where
  "pad m = m @ [0x80] @ replicate ((119 - length m mod 64) mod 64) 0 @ be_bytes 8 (8 * length m)"

fun blocks :: "nat \<Rightarrow> 32 word list \<Rightarrow> byte list \<Rightarrow> 32 word list" where
  "blocks 0 hs bs = hs"
| "blocks (Suc n) hs bs = blocks n (block hs (take 64 bs)) (drop 64 bs)"

definition word_bytes :: "32 word \<Rightarrow> byte list" where
  "word_bytes w = [ucast (drop_bit 24 w), ucast (drop_bit 16 w), ucast (drop_bit 8 w), ucast w]"

definition sha256 :: "byte list \<Rightarrow> byte list" where
  "sha256 m = (let p = pad m in concat (map word_bytes (blocks (length p div 64) sha256_init p)))"

definition hmac_sha256 :: "byte list \<Rightarrow> byte list \<Rightarrow> byte list" where
  "hmac_sha256 key m =
     (let k0 = (if length key > 64 then sha256 key else key);
          k = k0 @ replicate (64 - length k0) 0
      in sha256 (map (\<lambda>b. b XOR 0x5c) k @ sha256 (map (\<lambda>b. b XOR 0x36) k @ m)))"

subsection \<open>\<open>encoding/hex\<close>\<close>

definition hextable :: string where
  "hextable = ''0123456789abcdef''"

fun EncodeToString :: "byte list \<Rightarrow> string" where
  "EncodeToString [] = []"
| "EncodeToString (v # vs) =
     hextable ! unat (drop_bit 4 v) # hextable ! unat (v AND 0x0f) # EncodeToString vs"

subsection \<open>\<open>generateSecretId\<close>\<close>

text \<open>
  \<open>h := hmac.New(sha256.New, []byte("")); h.Write(secret);
  return hex.EncodeToString(h.Sum(nil))[:12]\<close>
\<close>

definition generateSecretId :: "byte list \<Rightarrow> string" where
  "generateSecretId secret = take 12 (EncodeToString (hmac_sha256 [] secret))"

section \<open>The rotation engine\<close>

text \<open>
  \<open>generateAndStoreSecret\<close>: generate, build the secret (active, created now), store it;
  either failure is returned wrapped and no secret is produced.
\<close>

definition generateAndStoreSecret :: "World \<Rightarrow> error + Secret" where
  "generateAndStoreSecret w =
     (case Generate w of
        Inl err \<Rightarrow> Inl (Errorf ''failed to generate secret value'' err)
      | Inr v \<Rightarrow>
          (let secret = \<lparr>ID = generateSecretId v, Value = v, CreatedAt = nowCreate w, Active = True\<rparr>
           in case Store w (ID secret) (Value secret) (CreatedAt secret) of
                Some err \<Rightarrow> Inl (Errorf ''failed to store new secret'' err)
              | None \<Rightarrow> Inr secret))"

text \<open>
  \<open>cleanupOldSecrets\<close>: nothing when the grace period is not positive; otherwise keep the
  previous secrets with \<open>CreatedAt.After(now - GracePeriod)\<close>, in order.
\<close>

definition cleanupOldSecrets :: "World \<Rightarrow> RotationManager \<Rightarrow> RotationManager" where
  "cleanupOldSecrets w rm =
     (if GracePeriod (policy rm) \<le> 0 then rm
      else
        (let cutOffTime = nowCleanup w + (- GracePeriod (policy rm))
         in rm\<lparr>previousSecrets := filter (\<lambda>secret. CreatedAt secret > cutOffTime) (previousSecrets rm)\<rparr>))"

text \<open>
  \<open>RotateSecret\<close> returns the new secret or the error, the manager afterwards, and the
  calls made on the notifier (none when it is nil).
\<close>

definition RotateSecret :: "World \<Rightarrow> RotationManager \<Rightarrow> (error + Secret) \<times> RotationManager \<times> event list" where
  "RotateSecret w rm =
     (case generateAndStoreSecret w of
        Inl err \<Rightarrow> (Inl err, rm, if notifier rm then [NotifyError err] else [])
      | Inr newSecret \<Rightarrow>
          (let rm1 =
                 (case activeSecret rm of
                    None \<Rightarrow> rm
                  | Some a \<Rightarrow>
                      cleanupOldSecrets w
                        (rm\<lparr>previousSecrets := a\<lparr>Active := False\<rparr> # previousSecrets rm\<rparr>));
               rm2 = rm1\<lparr>activeSecret := Some newSecret\<rparr>
           in (Inr newSecret, rm2, if notifier rm then [NotifyRotation newSecret] else [])))"

text \<open>
  The loop of \<open>NewRotationManager\<close> over the stored records: every record becomes a secret
  marked inactive; the first one met while \<open>activeSecret\<close> is nil is marked active and
  installed, every later one is appended to \<open>previousSecrets\<close>.
\<close>

fun loadSecrets :: "StoredSecret list \<Rightarrow> RotationManager \<Rightarrow> RotationManager" where
  "loadSecrets [] rm = rm"
| "loadSecrets (s # ss) rm =
     (let secret = \<lparr>ID = StoredID s, Value = StoredValue s, CreatedAt = StoredCreatedAt s, Active = False\<rparr>
      in loadSecrets ss
           (case activeSecret rm of
              None \<Rightarrow> rm\<lparr>activeSecret := Some (secret\<lparr>Active := True\<rparr>)\<rparr>
            | Some _ \<Rightarrow> rm\<lparr>previousSecrets := previousSecrets rm @ [secret]\<rparr>))"

text \<open>
  \<open>NewRotationManager policy store gen notifier\<close>. \<open>getAll\<close> is the answer of
  \<open>store.GetAll\<close>; the world is consulted only when no stored secret is used.
\<close>

definition NewRotationManager ::
  "RotationPolicy \<Rightarrow> (error + StoredSecret list) \<Rightarrow> bool \<Rightarrow> World \<Rightarrow> (error + RotationManager) \<times> event list" where
  "NewRotationManager pol getAll notif w =
     (let rm = \<lparr>activeSecret = None, previousSecrets = [], policy = pol, autoRotate = False, notifier = notif\<rparr>
      in case getAll of
           Inr (s # ss) \<Rightarrow> (Inr (loadSecrets (s # ss) rm), [])
         | _ \<Rightarrow>
             (case generateAndStoreSecret w of
                Inl err \<Rightarrow>
                  (Inl (Errorf ''failed to generate initial secret'' err),
                   if notifier rm then [NotifyError err] else [])
              | Inr secret \<Rightarrow> (Inr (rm\<lparr>activeSecret := Some secret\<rparr>), [])))"

text \<open>\<open>GetSecrets\<close>: the active secret, if any, then the previous ones.\<close>

definition GetSecrets :: "RotationManager \<Rightarrow> Secret list" where
  "GetSecrets rm = (case activeSecret rm of None \<Rightarrow> [] | Some a \<Rightarrow> [a]) @ previousSecrets rm"

text \<open>
  A run of the engine: the manager after a list of \<open>RotateSecret\<close> calls, one world per
  call (a failed call leaves the manager as \<open>RotateSecret\<close> returns it).
\<close>

fun rotations :: "World list \<Rightarrow> RotationManager \<Rightarrow> RotationManager" where
  "rotations [] rm = rm"
| "rotations (w # ws) rm = rotations ws (fst (snd (RotateSecret w rm)))"

section \<open>The JWT manager\<close>

subsection \<open>The JWT library the manager calls (\<open>github.com/golang-jwt/jwt\<close>)\<close>

text \<open>
  The library is not part of the repository. Its control flow is written out as the
  library has it (version 3.2, the import path without a major version); its JSON and
  base64url codecs, the claim check \<open>Claims.Valid()\<close>, the MAC of the SHA-384 and
  SHA-512 methods and the signing and verification of the methods that are not HMAC are
  parameters, collected in a \<open>Codec\<close> over the type \<open>'c\<close> of claim sets.

  A key travels as an \<open>interface{}\<close>, a value with its dynamic type. Two dynamic types
  occur: the unnamed type \<open>[]byte\<close> and the repository's defined type \<open>SecretValue\<close>
  (\<open>type SecretValue []byte\<close>). In Go a defined type is different from every other type,
  and a type assertion \<open>key.([]byte)\<close> to a type that is not an interface holds when the
  dynamic type of \<open>key\<close> is identical to \<open>[]byte\<close>: for the first kind of key only. The
  field \<open>Secret.Value\<close> has the type \<open>SecretValue\<close>, whether its bytes came from the
  generator or from a stored record.
\<close>

datatype key = BytesKey "byte list" | SecretValueKey "byte list"

text \<open>A header value: a JSON string, or any other JSON value with its \<open>%v\<close> rendering.\<close>

datatype hval = HString string | HOther string

text \<open>
  A signing method: \<open>*SigningMethodHMAC\<close> or a method of another Go type, each with its
  \<open>Alg()\<close> name.
\<close>

datatype SigningMethod = SigningMethodHMAC string | SigningMethodOther string

record 'c Token =
  Raw :: string
  Method :: SigningMethod
  Header :: "string \<rightharpoonup> hval"
  Claims :: 'c
  Signature :: string
  Valid :: bool

record 'c Codec =
  MarshalHeader :: "(string \<rightharpoonup> hval) \<Rightarrow> error + byte list"
  MarshalClaims :: "'c \<Rightarrow> error + byte list"
  UnmarshalHeader :: "byte list \<Rightarrow> error + (string \<rightharpoonup> hval)"
  UnmarshalClaims :: "byte list \<Rightarrow> error + 'c"
  EncodeSegment :: "byte list \<Rightarrow> string"
  DecodeSegment :: "string \<Rightarrow> error + byte list"
  ClaimsValid :: "'c \<Rightarrow> error option"
  HmacOther :: "string \<Rightarrow> byte list \<Rightarrow> byte list \<Rightarrow> byte list"
  SignOther :: "string \<Rightarrow> string \<Rightarrow> key \<Rightarrow> error + string"
  VerifyOther :: "string \<Rightarrow> string \<Rightarrow> string \<Rightarrow> key \<Rightarrow> error option"

definition ValidationErrorMalformed :: "32 word" where
  "ValidationErrorMalformed = push_bit 0 1"

definition ValidationErrorUnverifiable :: "32 word" where
  "ValidationErrorUnverifiable = push_bit 1 1"

definition ValidationErrorSignatureInvalid :: "32 word" where
  "ValidationErrorSignatureInvalid = push_bit 2 1"

definition ValidationErrorClaimsInvalid :: "32 word" where
  "ValidationErrorClaimsInvalid = push_bit 9 1"

definition NewValidationError :: "string \<Rightarrow> 32 word \<Rightarrow> error" where
  "NewValidationError errorText errorFlags = ValidationError None errorFlags errorText"

definition Alg :: "SigningMethod \<Rightarrow> string" where
  "Alg m = (case m of SigningMethodHMAC a \<Rightarrow> a | SigningMethodOther a \<Rightarrow> a)"

text \<open>\<open>GetSigningMethod\<close>: the methods the library registers, by name.\<close>

definition GetSigningMethod :: "string \<Rightarrow> SigningMethod option" where
  "GetSigningMethod alg =
     (if alg \<in> set [''HS256'', ''HS384'', ''HS512''] then Some (SigningMethodHMAC alg)
      else if alg \<in> set [''RS256'', ''RS384'', ''RS512'', ''PS256'', ''PS384'', ''PS512'',
                          ''ES256'', ''ES384'', ''ES512'', ''EdDSA'', ''none'']
      then Some (SigningMethodOther alg)
      else None)"

definition bytes_of :: "string \<Rightarrow> byte list" where
  "bytes_of s = map (\<lambda>c. of_nat (of_char c)) s"

definition hmac_sum :: "'c Codec \<Rightarrow> string \<Rightarrow> byte list \<Rightarrow> byte list \<Rightarrow> byte list" where
  "hmac_sum L alg keyBytes m =
     (if alg = ''HS256'' then hmac_sha256 keyBytes m else HmacOther L alg keyBytes m)"

text \<open>
  \<open>Method.Sign\<close>. For HMAC: \<open>if keyBytes, ok := key.([]byte); ok { ... } return "",
  ErrInvalidKeyType\<close>.
\<close>

definition Sign :: "'c Codec \<Rightarrow> SigningMethod \<Rightarrow> string \<Rightarrow> key \<Rightarrow> error + string" where
  "Sign L m signingString k =
     (case m of
        SigningMethodHMAC alg \<Rightarrow>
          (case k of
             BytesKey keyBytes \<Rightarrow>
               Inr (EncodeSegment L (hmac_sum L alg keyBytes (bytes_of signingString)))
           | SecretValueKey _ \<Rightarrow> Inl ErrInvalidKeyType)
      | SigningMethodOther alg \<Rightarrow> SignOther L alg signingString k)"

text \<open>
  \<open>Method.Verify\<close>, a nil error being \<open>None\<close>. For HMAC: the key check first, then the
  signature is decoded and compared with the MAC of the signing string.
\<close>

definition Verify :: "'c Codec \<Rightarrow> SigningMethod \<Rightarrow> string \<Rightarrow> string \<Rightarrow> key \<Rightarrow> error option" where
  "Verify L m signingString signature k =
     (case m of
        SigningMethodHMAC alg \<Rightarrow>
          (case k of
             BytesKey keyBytes \<Rightarrow>
               (case DecodeSegment L signature of
                  Inl err \<Rightarrow> Some err
                | Inr sig \<Rightarrow>
                    if sig = hmac_sum L alg keyBytes (bytes_of signingString) then None
                    else Some ErrSignatureInvalid)
           | SecretValueKey _ \<Rightarrow> Some ErrInvalidKeyType)
      | SigningMethodOther alg \<Rightarrow> VerifyOther L alg signingString signature k)"

definition NewWithClaims :: "SigningMethod \<Rightarrow> 'c \<Rightarrow> 'c Token" where
  "NewWithClaims method claims =
     \<lparr>Raw = [], Method = method,
      Header = [''typ'' \<mapsto> HString ''JWT'', ''alg'' \<mapsto> HString (Alg method)],
      Claims = claims, Signature = [], Valid = False\<rparr>"

definition SigningString :: "'c Codec \<Rightarrow> 'c Token \<Rightarrow> error + string" where
  "SigningString L t =
     (case MarshalHeader L (Header t) of
        Inl err \<Rightarrow> Inl err
      | Inr h \<Rightarrow>
          (case MarshalClaims L (Claims t) of
             Inl err \<Rightarrow> Inl err
           | Inr c \<Rightarrow> Inr (EncodeSegment L h @ ''.'' @ EncodeSegment L c)))"

definition SignedString :: "'c Codec \<Rightarrow> 'c Token \<Rightarrow> key \<Rightarrow> error + string" where
  "SignedString L t k =
     (case SigningString L t of
        Inl err \<Rightarrow> Inl err
      | Inr sstr \<Rightarrow>
          (case Sign L (Method t) sstr k of
             Inl err \<Rightarrow> Inl err
           | Inr sig \<Rightarrow> Inr (sstr @ ''.'' @ sig)))"

text \<open>\<open>strings.Split(s, ".")\<close>\<close>

fun Split :: "string \<Rightarrow> string list" where
  "Split [] = [[]]"
| "Split (c # cs) =
     (if c = CHR ''.'' then [] # Split cs
      else (case Split cs of [] \<Rightarrow> [[c]] | p # ps \<Rightarrow> (c # p) # ps))"

text \<open>\<open>strings.HasPrefix(strings.ToLower(tokenString), "bearer ")\<close>, on ASCII letters.\<close>

definition ToLower :: "char \<Rightarrow> char" where
  "ToLower c =
     (let n = (of_char c :: nat) in if 65 \<le> n \<and> n \<le> 90 then char_of (n + 32) else c)"

definition hasBearerPrefix :: "string \<Rightarrow> bool" where
  "hasBearerPrefix s = (map ToLower (take 7 s) = ''bearer '')"

text \<open>
  \<open>Parser.ParseUnverified\<close>: three segments, the header decoded and unmarshalled, the
  claims decoded and unmarshalled, the method looked up from the header's \<open>alg\<close>. It
  returns the token and the segments.
\<close>

definition ParseUnverified :: "'c Codec \<Rightarrow> string \<Rightarrow> error + ('c Token \<times> string list)" where
  "ParseUnverified L tokenString =
     (let parts = Split tokenString in
      if length parts \<noteq> 3
      then Inl (NewValidationError ''token contains an invalid number of segments'' ValidationErrorMalformed)
      else
        (case DecodeSegment L (parts ! 0) of
           Inl err \<Rightarrow>
             if hasBearerPrefix tokenString
             then Inl (NewValidationError (''tokenstring should not contain '' @ [CHR 0x27] @ ''bearer '' @ [CHR 0x27])
                         ValidationErrorMalformed)
             else Inl (ValidationError (Some err) ValidationErrorMalformed [])
         | Inr headerBytes \<Rightarrow>
             (case UnmarshalHeader L headerBytes of
                Inl err \<Rightarrow> Inl (ValidationError (Some err) ValidationErrorMalformed [])
              | Inr hdr \<Rightarrow>
                  (case DecodeSegment L (parts ! 1) of
                     Inl err \<Rightarrow> Inl (ValidationError (Some err) ValidationErrorMalformed [])
                   | Inr claimBytes \<Rightarrow>
                       (case UnmarshalClaims L claimBytes of
                          Inl err \<Rightarrow> Inl (ValidationError (Some err) ValidationErrorMalformed [])
                        | Inr c \<Rightarrow>
                            (case hdr ''alg'' of
                               Some (HString method) \<Rightarrow>
                                 (case GetSigningMethod method of
                                    None \<Rightarrow>
                                      Inl (NewValidationError ''signing method (alg) is unavailable.''
                                             ValidationErrorUnverifiable)
                                  | Some m \<Rightarrow>
                                      Inr (\<lparr>Raw = tokenString, Method = m, Header = hdr, Claims = c,
                                            Signature = [], Valid = False\<rparr>, parts))
                             | _ \<Rightarrow>
                                 Inl (NewValidationError ''signing method (alg) is unspecified.''
                                        ValidationErrorUnverifiable)))))))"

text \<open>
  \<open>jwt.Parse(tokenString, keyFunc)\<close>: parse, ask \<open>keyFunc\<close> for the key (its error is
  returned as it is when it is a \<open>ValidationError\<close>, wrapped as unverifiable otherwise),
  check the claims, verify the signature over the first two segments; the token is
  valid when no error flag is set.
\<close>

definition Parse :: "'c Codec \<Rightarrow> string \<Rightarrow> ('c Token \<Rightarrow> error + key) \<Rightarrow> error + 'c Token" where
  "Parse L tokenString keyFunc =
     (case ParseUnverified L tokenString of
        Inl err \<Rightarrow> Inl err
      | Inr (token, parts) \<Rightarrow>
          (case keyFunc token of
             Inl err \<Rightarrow>
               (case err of
                  ValidationError i f t \<Rightarrow> Inl (ValidationError i f t)
                | _ \<Rightarrow> Inl (ValidationError (Some err) ValidationErrorUnverifiable []))
           | Inr k \<Rightarrow>
               (let (inner0, flags0, text0) =
                      (case ClaimsValid L (Claims token) of
                         None \<Rightarrow> (None, 0, [])
                       | Some (ValidationError i f t) \<Rightarrow> (i, f, t)
                       | Some err \<Rightarrow> (Some err, ValidationErrorClaimsInvalid, []));
                    token1 = token\<lparr>Signature := parts ! 2\<rparr>;
                    (inner1, flags1) =
                      (case Verify L (Method token1) (parts ! 0 @ ''.'' @ parts ! 1) (Signature token1) k of
                         Some err \<Rightarrow> (Some err, flags0 OR ValidationErrorSignatureInvalid)
                       | None \<Rightarrow> (inner0, flags0))
                in if flags1 = 0 then Inr (token1\<lparr>Valid := True\<rparr>)
                   else Inl (ValidationError inner1 flags1 text0))))"

subsection \<open>\<open>JWTManager\<close>\<close>

text \<open>
  \<open>SignToken\<close>: no active secret is an error; otherwise an HS256 token with the active
  secret's identifier as \<open>kid\<close>, signed with \<open>activeSecret.Value\<close>, a \<open>SecretValue\<close>.
\<close>

definition SignToken :: "'c Codec \<Rightarrow> RotationManager \<Rightarrow> 'c \<Rightarrow> error + string" where
  "SignToken L jm claims =
     (case activeSecret jm of
        None \<Rightarrow> Inl (New ''no active secret available to sign token'')
      | Some a \<Rightarrow>
          (let token = NewWithClaims (SigningMethodHMAC ''HS256'') claims;
               token = token\<lparr>Header := (Header token)(''kid'' \<mapsto> HString (ID a))\<rparr>
           in SignedString L token (SecretValueKey (Value a))))"

definition fmt_v :: "hval option \<Rightarrow> string" where
  "fmt_v v = (case v of None \<Rightarrow> ''<nil>'' | Some (HString s) \<Rightarrow> s | Some (HOther r) \<Rightarrow> r)"

definition notFound :: "string \<Rightarrow> error" where
  "notFound kid =
     New (''token validation failed: secret with kid '' @ [CHR 0x27] @ kid @ [CHR 0x27] @ '' not found'')"

text \<open>
  The key function \<open>ValidateToken\<close> hands to \<open>jwt.Parse\<close>: a method that is not
  \<open>*SigningMethodHMAC\<close> is refused first; then \<open>kid\<close> is read as a string and, when it is
  one, the first secret of \<open>GetSecrets\<close> with that identifier gives the key (its \<open>Value\<close>,
  a \<open>SecretValue\<close>). Everything else ends in the one \<open>not found\<close> error, where \<open>kid\<close> is
  the empty string when the header has no string \<open>kid\<close>.
\<close>

definition keyFunc :: "RotationManager \<Rightarrow> 'c Token \<Rightarrow> error + key" where
  "keyFunc jm token =
     (case Method token of
        SigningMethodOther _ \<Rightarrow>
          Inl (New (''unexpected signing method: '' @ fmt_v (Header token ''alg'')))
      | SigningMethodHMAC _ \<Rightarrow>
          (case Header token ''kid'' of
             Some (HString kid) \<Rightarrow>
               (case find (\<lambda>secret. ID secret = kid) (GetSecrets jm) of
                  Some secret \<Rightarrow> Inr (SecretValueKey (Value secret))
                | None \<Rightarrow> Inl (notFound kid))
           | _ \<Rightarrow> Inl (notFound [])))"

definition ValidateToken :: "'c Codec \<Rightarrow> RotationManager \<Rightarrow> string \<Rightarrow> error + 'c Token" where
  "ValidateToken L jm tokenString = Parse L tokenString (keyFunc jm)"

text \<open>
  \<open>ExportActiveSecretHex\<close>: the string returned, and the manager as the call leaves it.
\<close>

definition ExportActiveSecretHex :: "RotationManager \<Rightarrow> string \<times> RotationManager" where
  "ExportActiveSecretHex jm =
     (case activeSecret jm of
        None \<Rightarrow> ([], jm)
      | Some a \<Rightarrow> (EncodeToString (Value a), jm))"

section \<open>Notions used to state the properties\<close>

text \<open>
  What holds of every manager that \<open>NewRotationManager\<close> returns and that \<open>RotateSecret\<close>
  keeps: the policy it was built with, an active secret flagged active, previous secrets
  flagged inactive.
\<close>

definition engineInv :: "RotationPolicy \<Rightarrow> RotationManager \<Rightarrow> bool" where
  "engineInv pol rm =
     (policy rm = pol \<and>
      (case activeSecret rm of None \<Rightarrow> False | Some a \<Rightarrow> Active a) \<and>
      list_all (\<lambda>p. \<not> Active p) (previousSecrets rm))"

text \<open>
  Lowercase hexadecimal, from its description: two digits per byte, the high half first,
  the digits \<open>0\<close> to \<open>9\<close> and \<open>a\<close> to \<open>f\<close>.
\<close>

definition hexDigit :: "nat \<Rightarrow> char" where
  "hexDigit n =
     (if n < 10 then char_of (of_char CHR ''0'' + n) else char_of (of_char CHR ''a'' + (n - 10)))"

definition lowercaseHex :: "byte list \<Rightarrow> string" where
  "lowercaseHex bs = concat (map (\<lambda>b. [hexDigit (unat b div 16), hexDigit (unat b mod 16)]) bs)"

text \<open>
  A well-formed token string, as the library's parser reads it: three segments, a header
  segment that decodes and unmarshals, a claims segment that decodes and unmarshals.
\<close>

definition wellFormed :: "'c Codec \<Rightarrow> string \<Rightarrow> bool" where
  "wellFormed L s =
     (let parts = Split s in
      length parts = 3 \<and>
      (case DecodeSegment L (parts ! 0) of
         Inl _ \<Rightarrow> False
       | Inr hb \<Rightarrow>
           (case UnmarshalHeader L hb of
              Inl _ \<Rightarrow> False
            | Inr _ \<Rightarrow>
                (case DecodeSegment L (parts ! 1) of
                   Inl _ \<Rightarrow> False
                 | Inr cb \<Rightarrow>
                     (case UnmarshalClaims L cb of Inl _ \<Rightarrow> False | Inr _ \<Rightarrow> True)))))"

text \<open>
  The error of \<open>ValidateToken\<close> when the key-ID \<open>kid\<close> is present and no secret of the
  working set carries it: the key function's \<open>not found\<close> error for \<open>kid\<close>, which
  \<open>jwt.Parse\<close> wraps as unverifiable.
\<close>

definition unknownKeyError :: "string \<Rightarrow> error" where
  "unknownKeyError kid = ValidationError (Some (notFound kid)) ValidationErrorUnverifiable []"

subsection \<open>Example data\<close>

text \<open>
  A policy with a grace period of 10, a world at time 100 whose generator yields the
  byte 7 and whose store accepts, and three stored records: an old one, a recent one,
  and a recent one that holds the value the generator yields.
\<close>

definition examplePolicy :: RotationPolicy where
  "examplePolicy = \<lparr>RotationInterval = 0, GracePeriod = 10\<rparr>"

definition exampleWorld :: World where
  "exampleWorld = \<lparr>Generate = Inr [7], Store = (\<lambda>i v t. None), nowCreate = 100, nowCleanup = 100\<rparr>"

definition exampleFailingWorld :: World where
  "exampleFailingWorld =
     \<lparr>Generate = Inr [7], Store = (\<lambda>i v t. Some (External ''timeout'')), nowCreate = 100, nowCleanup = 100\<rparr>"

definition exampleOld :: StoredSecret where
  "exampleOld = \<lparr>StoredID = ''a'', StoredValue = [1], StoredCreatedAt = 0\<rparr>"

definition exampleRecent :: StoredSecret where
  "exampleRecent = \<lparr>StoredID = ''b'', StoredValue = [2], StoredCreatedAt = 95\<rparr>"

definition exampleSame :: StoredSecret where
  "exampleSame = \<lparr>StoredID = generateSecretId [7], StoredValue = [7], StoredCreatedAt = 95\<rparr>"

text \<open>The manager \<open>NewRotationManager\<close> builds from the old and the recent record.\<close>

definition exampleManager :: RotationManager where
  "exampleManager =
     \<lparr>activeSecret = Some \<lparr>ID = ''a'', Value = [1], CreatedAt = 0, Active = True\<rparr>,
      previousSecrets = [\<lparr>ID = ''b'', Value = [2], CreatedAt = 95, Active = False\<rparr>],
      policy = examplePolicy, autoRotate = False, notifier = False\<rparr>"

text \<open>
  The same world five time units after the old record was created, and the manager
  \<open>NewRotationManager\<close> builds from the old record and the one that holds the value the
  generator yields.
\<close>

definition exampleEarlyWorld :: World where
  "exampleEarlyWorld = \<lparr>Generate = Inr [7], Store = (\<lambda>i v t. None), nowCreate = 5, nowCleanup = 5\<rparr>"

definition exampleCollidingManager :: RotationManager where
  "exampleCollidingManager =
     \<lparr>activeSecret = Some \<lparr>ID = ''a'', Value = [1], CreatedAt = 0, Active = True\<rparr>,
      previousSecrets = [\<lparr>ID = generateSecretId [7], Value = [7], CreatedAt = 95, Active = False\<rparr>],
      policy = examplePolicy, autoRotate = False, notifier = False\<rparr>"

text \<open>
  A codec for examples: segments are plain text, claims are bytes, and five headers can
  be read: \<open>RS256,k1\<close> (an RS256 header with \<open>kid\<close> \<open>k1\<close>), \<open>RS256\<close> (an RS256 header
  without \<open>kid\<close>), \<open>HS256\<close> (an HS256 header without \<open>kid\<close>), \<open>HS256,\<close> (\<open>kid\<close> the
  empty string) and \<open>HS256,k1\<close>.
\<close>

definition exampleCodec :: "byte list Codec" where
  "exampleCodec =
     \<lparr>MarshalHeader = (\<lambda>h. Inr (bytes_of (fmt_v (h ''alg'')))),
      MarshalClaims = (\<lambda>c. Inr c),
      UnmarshalHeader = (\<lambda>bs.
          if bs = bytes_of ''RS256,k1''
          then Inr [''alg'' \<mapsto> HString ''RS256'', ''kid'' \<mapsto> HString ''k1'']
          else if bs = bytes_of ''RS256'' then Inr [''alg'' \<mapsto> HString ''RS256'']
          else if bs = bytes_of ''HS256'' then Inr [''alg'' \<mapsto> HString ''HS256'']
          else if bs = bytes_of ''HS256,''
          then Inr [''alg'' \<mapsto> HString ''HS256'', ''kid'' \<mapsto> HString []]
          else if bs = bytes_of ''HS256,k1''
          then Inr [''alg'' \<mapsto> HString ''HS256'', ''kid'' \<mapsto> HString ''k1'']
          else Inl (External ''invalid character'')),
      UnmarshalClaims = (\<lambda>bs. Inr bs),
      EncodeSegment = map (\<lambda>b. char_of (unat b)),
      DecodeSegment = (\<lambda>s.
          if CHR ''='' \<in> set s then Inl (External ''illegal base64 data'') else Inr (bytes_of s)),
      ClaimsValid = (\<lambda>c. None),
      HmacOther = (\<lambda>alg k m. []),
      SignOther = (\<lambda>alg s k. Inl ErrInvalidKeyType),
      VerifyOther = (\<lambda>alg s sig k. Some ErrInvalidKeyType)\<rparr>"

text \<open>
  What the library's parser makes of the token string \<open>HS256,k1.c.s\<close> under the
  example codec.
\<close>

definition exampleTokenUnknownKid :: "byte list Token" where
  "exampleTokenUnknownKid =
     \<lparr>Raw = ''HS256,k1.c.s'', Method = SigningMethodHMAC ''HS256'',
      Header = [''alg'' \<mapsto> HString ''HS256'', ''kid'' \<mapsto> HString ''k1''],
      Claims = bytes_of ''c'', Signature = [], Valid = False\<rparr>"

section \<open>Properties\<close>

subsection \<open>Generating and storing\<close>

lemma generateAndStoreSecret_Inr:
  "generateAndStoreSecret w = Inr s \<Longrightarrow>
   Active s \<and> ID s = generateSecretId (Value s) \<and> CreatedAt s = nowCreate w \<and> Generate w = Inr (Value s)"
  by (auto simp: generateAndStoreSecret_def Let_def split: sum.splits option.splits)

lemma RotateSecret_Inr:
  assumes "RotateSecret w rm = (Inr s, rm', evs)"
  shows "generateAndStoreSecret w = Inr s"
    and "rm' = (case activeSecret rm of
                  None \<Rightarrow> rm
                | Some a \<Rightarrow> cleanupOldSecrets w (rm\<lparr>previousSecrets := a\<lparr>Active := False\<rparr> # previousSecrets rm\<rparr>))
               \<lparr>activeSecret := Some s\<rparr>"
  using assms by (auto simp: RotateSecret_def Let_def split: sum.splits)

lemma RotateSecret_Inl:
  "generateAndStoreSecret w = Inl e \<Longrightarrow> fst (snd (RotateSecret w rm)) = rm"
  by (simp add: RotateSecret_def)

text \<open>
  C1: when the store write fails during \<open>RotateSecret\<close>, the call returns the storage
  error (wrapped), the manager is exactly what it was, and the notifier, when there is
  one, is told the error.
\<close>

theorem RotateSecret_store_failure:
  assumes "Generate w = Inr v"
    and "Store w (generateSecretId v) v (nowCreate w) = Some e"
  shows "RotateSecret w rm =
           (Inl (Errorf ''failed to store new secret'' e), rm,
            if notifier rm then [NotifyError (Errorf ''failed to store new secret'' e)] else [])"
  using assms by (simp add: RotateSecret_def generateAndStoreSecret_def)

theorem RotateSecret_store_failure_witness:
  "Generate exampleFailingWorld = Inr [7] \<and>
   Store exampleFailingWorld (generateSecretId [7]) [7] (nowCreate exampleFailingWorld) =
     Some (External ''timeout'') \<and>
   RotateSecret exampleFailingWorld exampleManager =
     (Inl (Errorf ''failed to store new secret'' (External ''timeout'')), exampleManager, [])"
proof -
  have g: "Generate exampleFailingWorld = Inr [7]"
    by (simp add: exampleFailingWorld_def)
  have st: "Store exampleFailingWorld (generateSecretId [7]) [7] (nowCreate exampleFailingWorld) =
              Some (External ''timeout'')"
    by (simp add: exampleFailingWorld_def)
  show ?thesis
    using g st RotateSecret_store_failure[OF g st, of exampleManager]
    by (simp add: exampleManager_def)
qed

subsection \<open>Construction from the store\<close>

lemma loadSecrets_active:
  "activeSecret rm = Some a \<Longrightarrow>
   loadSecrets ss rm =
     rm\<lparr>previousSecrets := previousSecrets rm @
        map (\<lambda>s. \<lparr>ID = StoredID s, Value = StoredValue s, CreatedAt = StoredCreatedAt s, Active = False\<rparr>) ss\<rparr>"
  by (induction ss arbitrary: rm) (simp_all add: Let_def)

text \<open>
  C2, as the code has it: for every non-empty sequence of records the store returns, the
  active secret is the first record of the sequence and the other records become the
  previous secrets, inactive and in the order of the sequence. The creation times are
  not compared.
\<close>

theorem NewRotationManager_first_record:
  "NewRotationManager pol (Inr (s # ss)) notif w =
     (Inr \<lparr>activeSecret =
             Some \<lparr>ID = StoredID s, Value = StoredValue s, CreatedAt = StoredCreatedAt s, Active = True\<rparr>,
           previousSecrets =
             map (\<lambda>r. \<lparr>ID = StoredID r, Value = StoredValue r, CreatedAt = StoredCreatedAt r, Active = False\<rparr>) ss,
           policy = pol, autoRotate = False, notifier = notif\<rparr>, [])"
  by (simp add: NewRotationManager_def Let_def loadSecrets_active)

text \<open>
  The specification's sentence fails when the store enumerates the old record (created
  at 0) before the recent one (created at 95): the old one becomes active.
\<close>

theorem NewRotationManager_latest_counterexample:
  "fst (NewRotationManager examplePolicy (Inr [exampleOld, exampleRecent]) False exampleWorld) =
   Inr \<lparr>activeSecret = Some \<lparr>ID = ''a'', Value = [1], CreatedAt = 0, Active = True\<rparr>,
        previousSecrets = [\<lparr>ID = ''b'', Value = [2], CreatedAt = 95, Active = False\<rparr>],
        policy = examplePolicy, autoRotate = False, notifier = False\<rparr>"
  by (simp add: NewRotationManager_def Let_def exampleOld_def exampleRecent_def)

subsection \<open>The invariant of the engine\<close>

lemma engineInv_New:
  assumes "fst (NewRotationManager pol getAll notif w) = Inr rm"
  shows "engineInv pol rm"
proof (cases "\<exists>s ss. getAll = Inr (s # ss)")
  case True
  then obtain s ss where "getAll = Inr (s # ss)" by blast
  with assms show ?thesis
    by (auto simp: NewRotationManager_def Let_def loadSecrets_active engineInv_def list_all_iff)
next
  case False
  then have "NewRotationManager pol getAll notif w =
       (case generateAndStoreSecret w of
          Inl err \<Rightarrow> (Inl (Errorf ''failed to generate initial secret'' err), if notif then [NotifyError err] else [])
        | Inr secret \<Rightarrow>
            (Inr \<lparr>activeSecret = Some secret, previousSecrets = [], policy = pol, autoRotate = False, notifier = notif\<rparr>, []))"
    by (auto simp: NewRotationManager_def Let_def split: sum.splits list.splits)
  with assms show ?thesis
    by (auto simp: engineInv_def split: sum.splits dest: generateAndStoreSecret_Inr)
qed

lemma engineInv_RotateSecret:
  assumes "engineInv pol rm"
  shows "engineInv pol (fst (snd (RotateSecret w rm)))"
proof (cases "generateAndStoreSecret w")
  case (Inl e)
  with assms show ?thesis by (simp add: RotateSecret_Inl)
next
  case (Inr s)
  with assms generateAndStoreSecret_Inr[OF Inr] show ?thesis
    by (auto simp: RotateSecret_def Let_def engineInv_def cleanupOldSecrets_def list_all_iff
             split: option.splits)
qed

lemma engineInv_rotations:
  "engineInv pol rm \<Longrightarrow> engineInv pol (rotations ws rm)"
  by (induction ws arbitrary: rm) (simp_all add: engineInv_RotateSecret)

lemma RotateSecret_previous:
  assumes "engineInv pol rm" and "RotateSecret w rm = (Inr s, rm', evs)"
  shows "\<exists>a. activeSecret rm = Some a \<and> activeSecret rm' = Some s \<and>
           previousSecrets rm' =
             (if GracePeriod pol \<le> 0 then a\<lparr>Active := False\<rparr> # previousSecrets rm
              else filter (\<lambda>p. nowCleanup w - GracePeriod pol < CreatedAt p)
                     (a\<lparr>Active := False\<rparr> # previousSecrets rm))"
proof -
  from assms(1) obtain a where a: "activeSecret rm = Some a" and p: "policy rm = pol"
    by (auto simp: engineInv_def split: option.splits)
  from RotateSecret_Inr(2)[OF assms(2)] a p show ?thesis
    by (simp add: cleanupOldSecrets_def Let_def)
qed

lemma example_New:
  "fst (NewRotationManager examplePolicy (Inr [exampleOld, exampleRecent]) False exampleWorld) =
     Inr exampleManager"
  by (simp add: NewRotationManager_def Let_def exampleOld_def exampleRecent_def exampleManager_def)

lemma example_Rotate:
  "RotateSecret exampleWorld (rotations [exampleEarlyWorld] exampleManager) =
     (Inr \<lparr>ID = generateSecretId [7], Value = [7], CreatedAt = 100, Active = True\<rparr>,
      \<lparr>activeSecret = Some \<lparr>ID = generateSecretId [7], Value = [7], CreatedAt = 100, Active = True\<rparr>,
       previousSecrets = [\<lparr>ID = ''b'', Value = [2], CreatedAt = 95, Active = False\<rparr>],
       policy = examplePolicy, autoRotate = False, notifier = False\<rparr>,
      [])"
  by (simp add: RotateSecret_def generateAndStoreSecret_def cleanupOldSecrets_def Let_def
        exampleWorld_def exampleEarlyWorld_def exampleManager_def examplePolicy_def)

subsection \<open>Grace-period cleanup\<close>

text \<open>
  C3: take any manager the engine can be in (built by \<open>NewRotationManager\<close>, then any
  calls of \<open>RotateSecret\<close>) and a successful \<open>RotateSecret\<close> on it. It has an active
  secret. With a grace period \<open>g > 0\<close> the previous list afterwards is the demoted
  active secret and the old previous list, filtered by \<open>now - CreatedAt < g\<close>: every
  secret that remains satisfies \<open>now - CreatedAt \<le> g\<close> and no secret whose age exceeds
  \<open>g\<close> is in the list. With \<open>g \<le> 0\<close> nothing is removed. Here \<open>now\<close> is the clock
  reading of the cleanup pass.
\<close>

theorem RotateSecret_grace_cleanup:
  assumes "fst (NewRotationManager pol getAll notif w0) = Inr rm0"
    and "RotateSecret w (rotations ws rm0) = (Inr s, rm', evs)"
  shows "\<exists>a. activeSecret (rotations ws rm0) = Some a \<and>
           (if 0 < GracePeriod pol
            then previousSecrets rm' =
                   filter (\<lambda>p. nowCleanup w - CreatedAt p < GracePeriod pol)
                     (a\<lparr>Active := False\<rparr> # previousSecrets (rotations ws rm0)) \<and>
                 (\<forall>p\<in>set (previousSecrets rm'). nowCleanup w - CreatedAt p \<le> GracePeriod pol) \<and>
                 (\<forall>p. GracePeriod pol < nowCleanup w - CreatedAt p \<longrightarrow> p \<notin> set (previousSecrets rm'))
            else previousSecrets rm' = a\<lparr>Active := False\<rparr> # previousSecrets (rotations ws rm0))"
proof -
  have inv: "engineInv pol (rotations ws rm0)"
    using assms(1) by (intro engineInv_rotations engineInv_New)
  from RotateSecret_previous[OF inv assms(2)] obtain a where
    a: "activeSecret (rotations ws rm0) = Some a" and
    prev: "previousSecrets rm' =
             (if GracePeriod pol \<le> 0 then a\<lparr>Active := False\<rparr> # previousSecrets (rotations ws rm0)
              else filter (\<lambda>p. nowCleanup w - GracePeriod pol < CreatedAt p)
                     (a\<lparr>Active := False\<rparr> # previousSecrets (rotations ws rm0)))"
    by blast
  have eq: "(\<lambda>p. nowCleanup w - GracePeriod pol < CreatedAt p) =
            (\<lambda>p::Secret. nowCleanup w - CreatedAt p < GracePeriod pol)"
    by (rule ext) arith
  show ?thesis
  proof (cases "0 < GracePeriod pol")
    case True
    with prev have f: "previousSecrets rm' =
        filter (\<lambda>p. nowCleanup w - CreatedAt p < GracePeriod pol)
          (a\<lparr>Active := False\<rparr> # previousSecrets (rotations ws rm0))"
      by (simp only: eq) simp
    have b: "\<forall>p\<in>set (previousSecrets rm'). nowCleanup w - CreatedAt p \<le> GracePeriod pol"
      unfolding f by auto
    have c: "\<forall>p. GracePeriod pol < nowCleanup w - CreatedAt p \<longrightarrow> p \<notin> set (previousSecrets rm')"
      unfolding f by auto
    from True a f b c show ?thesis by simp
  next
    case False
    with prev a show ?thesis by simp
  qed
qed

text \<open>
  With a grace period of 10, rotate at time 5 and again at time 100. Before the second
  rotation the previous list holds the secrets created at 0 and 95; the second rotation
  demotes the secret created at 5 and drops it together with the one created at 0; the
  one created at 95 stays.
\<close>

theorem RotateSecret_grace_cleanup_witness:
  "fst (NewRotationManager examplePolicy (Inr [exampleOld, exampleRecent]) False exampleWorld) =
     Inr exampleManager \<and>
   RotateSecret exampleWorld (rotations [exampleEarlyWorld] exampleManager) =
     (Inr \<lparr>ID = generateSecretId [7], Value = [7], CreatedAt = 100, Active = True\<rparr>,
      \<lparr>activeSecret = Some \<lparr>ID = generateSecretId [7], Value = [7], CreatedAt = 100, Active = True\<rparr>,
       previousSecrets = [\<lparr>ID = ''b'', Value = [2], CreatedAt = 95, Active = False\<rparr>],
       policy = examplePolicy, autoRotate = False, notifier = False\<rparr>,
      []) \<and>
   0 < GracePeriod examplePolicy \<and>
   activeSecret (rotations [exampleEarlyWorld] exampleManager) =
     Some \<lparr>ID = generateSecretId [7], Value = [7], CreatedAt = 5, Active = True\<rparr> \<and>
   previousSecrets (rotations [exampleEarlyWorld] exampleManager) =
     [\<lparr>ID = ''a'', Value = [1], CreatedAt = 0, Active = False\<rparr>,
      \<lparr>ID = ''b'', Value = [2], CreatedAt = 95, Active = False\<rparr>] \<and>
   [\<lparr>ID = ''b'', Value = [2], CreatedAt = 95, Active = False\<rparr>] =
     filter (\<lambda>p. nowCleanup exampleWorld - CreatedAt p < GracePeriod examplePolicy)
       [\<lparr>ID = generateSecretId [7], Value = [7], CreatedAt = 5, Active = False\<rparr>,
        \<lparr>ID = ''a'', Value = [1], CreatedAt = 0, Active = False\<rparr>,
        \<lparr>ID = ''b'', Value = [2], CreatedAt = 95, Active = False\<rparr>] \<and>
   nowCleanup exampleWorld - 95 \<le> GracePeriod examplePolicy"
  using example_New example_Rotate RotateSecret_grace_cleanup[OF example_New example_Rotate]
  by (simp add: RotateSecret_def generateAndStoreSecret_def cleanupOldSecrets_def Let_def
        examplePolicy_def exampleWorld_def exampleEarlyWorld_def exampleManager_def)

subsection \<open>Promotion\<close>

lemma filter_Active_previous:
  "list_all (\<lambda>p. \<not> Active p) ps \<Longrightarrow> filter Active ps = []"
  by (induction ps) simp_all

text \<open>
  C4, as the code has it: take any manager the engine can be in and a successful
  \<open>RotateSecret\<close> on it. Afterwards the new secret is the active one, it is flagged
  active and it is the only secret of the working set that is; its identifier is
  \<open>generateSecretId\<close> of its value. The formerly active secret, flagged inactive, is at
  the front of the previous list when the grace period is not positive or it was
  created after \<open>now - gracePeriod\<close>; otherwise the cleanup of the same call drops it.
  The new identifier differs from every previous secret's identifier when no secret of
  the working set before the call had it; nothing else keeps identifiers apart.
\<close>

theorem RotateSecret_promotes:
  assumes "fst (NewRotationManager pol getAll notif w0) = Inr rm0"
    and "RotateSecret w (rotations ws rm0) = (Inr s, rm', evs)"
  shows "activeSecret rm' = Some s \<and> Active s \<and> ID s = generateSecretId (Value s) \<and>
         filter Active (GetSecrets rm') = [s] \<and>
         (\<exists>a. activeSecret (rotations ws rm0) = Some a \<and>
              previousSecrets rm' =
                (if GracePeriod pol \<le> 0 \<or> nowCleanup w - GracePeriod pol < CreatedAt a
                 then [a\<lparr>Active := False\<rparr>] else []) @
                (if GracePeriod pol \<le> 0 then previousSecrets (rotations ws rm0)
                 else filter (\<lambda>p. nowCleanup w - GracePeriod pol < CreatedAt p)
                        (previousSecrets (rotations ws rm0)))) \<and>
         (ID s \<notin> ID ` set (GetSecrets (rotations ws rm0)) \<longrightarrow>
            (\<forall>p\<in>set (previousSecrets rm'). ID p \<noteq> ID s))"
proof -
  let ?rm = "rotations ws rm0"
  have inv: "engineInv pol ?rm"
    using assms(1) by (intro engineInv_rotations engineInv_New)
  have gen: "generateAndStoreSecret w = Inr s"
    by (rule RotateSecret_Inr(1)[OF assms(2)])
  from RotateSecret_previous[OF inv assms(2)] obtain a where
    a: "activeSecret ?rm = Some a" and act: "activeSecret rm' = Some s" and
    prev: "previousSecrets rm' =
             (if GracePeriod pol \<le> 0 then a\<lparr>Active := False\<rparr> # previousSecrets ?rm
              else filter (\<lambda>p. nowCleanup w - GracePeriod pol < CreatedAt p)
                     (a\<lparr>Active := False\<rparr> # previousSecrets ?rm))"
    by blast
  have inv': "engineInv pol rm'"
    using engineInv_RotateSecret[OF inv, of w] assms(2) by simp
  have s: "Active s" "ID s = generateSecretId (Value s)"
    using generateAndStoreSecret_Inr[OF gen] by simp_all
  have one: "filter Active (GetSecrets rm') = [s]"
    using inv' act s(1) by (simp add: GetSecrets_def engineInv_def filter_Active_previous)
  have shape: "previousSecrets rm' =
                (if GracePeriod pol \<le> 0 \<or> nowCleanup w - GracePeriod pol < CreatedAt a
                 then [a\<lparr>Active := False\<rparr>] else []) @
                (if GracePeriod pol \<le> 0 then previousSecrets ?rm
                 else filter (\<lambda>p. nowCleanup w - GracePeriod pol < CreatedAt p) (previousSecrets ?rm))"
    unfolding prev by simp
  have sub: "ID ` set (previousSecrets rm') \<subseteq> ID ` set (GetSecrets ?rm)"
    unfolding prev using a by (auto simp: GetSecrets_def)
  have fresh: "ID s \<notin> ID ` set (GetSecrets ?rm) \<longrightarrow> (\<forall>p\<in>set (previousSecrets rm'). ID p \<noteq> ID s)"
    using sub by (metis image_eqI subsetD)
  from act s one a shape fresh show ?thesis by blast
qed

text \<open>
  Five time units after the old secret was created it survives its demotion and is at
  the front of the previous list; the new identifier has twelve characters, so it is
  neither \<open>a\<close> nor \<open>b\<close>.
\<close>

lemma example_Rotate_early:
  "RotateSecret exampleEarlyWorld (rotations [] exampleManager) =
     (Inr \<lparr>ID = generateSecretId [7], Value = [7], CreatedAt = 5, Active = True\<rparr>,
      \<lparr>activeSecret = Some \<lparr>ID = generateSecretId [7], Value = [7], CreatedAt = 5, Active = True\<rparr>,
       previousSecrets = [\<lparr>ID = ''a'', Value = [1], CreatedAt = 0, Active = False\<rparr>,
                          \<lparr>ID = ''b'', Value = [2], CreatedAt = 95, Active = False\<rparr>],
       policy = examplePolicy, autoRotate = False, notifier = False\<rparr>,
      [])"
  by (simp add: RotateSecret_def generateAndStoreSecret_def cleanupOldSecrets_def Let_def
        exampleEarlyWorld_def exampleManager_def examplePolicy_def)

lemma length_round: "length (round st kw) = length st"
  by (cases "(st, kw)" rule: round.cases) (simp_all add: Let_def)

lemma length_foldl_round: "length (foldl round st kws) = length st"
  by (induction kws arbitrary: st) (simp_all add: length_round)

lemma length_block: "length (block hs bs) = length hs"
  by (simp add: block_def length_foldl_round)

lemma length_blocks: "length (blocks n hs bs) = length hs"
  by (induction n arbitrary: hs bs) (simp_all add: length_block)

lemma length_word_bytes: "length (concat (map word_bytes ws)) = 4 * length ws"
  by (induction ws) (simp_all add: word_bytes_def)

lemma length_sha256: "length (sha256 m) = 32"
  by (simp add: sha256_def Let_def length_word_bytes length_blocks sha256_init_def)

lemma length_EncodeToString: "length (EncodeToString bs) = 2 * length bs"
  by (induction bs) simp_all

lemma length_generateSecretId: "length (generateSecretId secret) = 12"
  by (simp add: generateSecretId_def hmac_sha256_def Let_def length_EncodeToString length_sha256)

lemma generateSecretId_not_short: "length k < 12 \<Longrightarrow> generateSecretId secret \<noteq> k"
  using length_generateSecretId[of secret] by auto

theorem RotateSecret_promotes_witness:
  "fst (NewRotationManager examplePolicy (Inr [exampleOld, exampleRecent]) False exampleWorld) =
     Inr exampleManager \<and>
   RotateSecret exampleEarlyWorld (rotations [] exampleManager) =
     (Inr \<lparr>ID = generateSecretId [7], Value = [7], CreatedAt = 5, Active = True\<rparr>,
      \<lparr>activeSecret = Some \<lparr>ID = generateSecretId [7], Value = [7], CreatedAt = 5, Active = True\<rparr>,
       previousSecrets = [\<lparr>ID = ''a'', Value = [1], CreatedAt = 0, Active = False\<rparr>,
                          \<lparr>ID = ''b'', Value = [2], CreatedAt = 95, Active = False\<rparr>],
       policy = examplePolicy, autoRotate = False, notifier = False\<rparr>,
      []) \<and>
   nowCleanup exampleEarlyWorld - GracePeriod examplePolicy < 0 \<and>
   generateSecretId [7] \<notin> ID ` set (GetSecrets (rotations [] exampleManager)) \<and>
   generateSecretId [7] \<noteq> ''a'' \<and> generateSecretId [7] \<noteq> ''b''"
  using example_New example_Rotate_early
    RotateSecret_promotes[OF example_New example_Rotate_early]
  by (simp add: examplePolicy_def exampleEarlyWorld_def exampleManager_def GetSecrets_def
        generateSecretId_not_short)

text \<open>
  The specification's sentence fails at time 100 with a grace period of 10, on the
  manager built from the old record and a record that holds the value the generator
  yields again: the formerly active secret \<open>a\<close> (created at 0) is not in the previous list at all, and the
  new secret's identifier is the identifier of the previous secret that stays.
\<close>

theorem RotateSecret_front_counterexample:
  "fst (NewRotationManager examplePolicy (Inr [exampleOld, exampleSame]) False exampleWorld) =
     Inr exampleCollidingManager \<and>
   RotateSecret exampleWorld exampleCollidingManager =
     (Inr \<lparr>ID = generateSecretId [7], Value = [7], CreatedAt = 100, Active = True\<rparr>,
      \<lparr>activeSecret = Some \<lparr>ID = generateSecretId [7], Value = [7], CreatedAt = 100, Active = True\<rparr>,
       previousSecrets = [\<lparr>ID = generateSecretId [7], Value = [7], CreatedAt = 95, Active = False\<rparr>],
       policy = examplePolicy, autoRotate = False, notifier = False\<rparr>,
      [])"
  by (simp add: NewRotationManager_def RotateSecret_def generateAndStoreSecret_def
        cleanupOldSecrets_def Let_def exampleWorld_def exampleOld_def exampleSame_def
        exampleCollidingManager_def examplePolicy_def)

subsection \<open>Signing\<close>

lemma Sign_SecretValueKey:
  "Sign L (SigningMethodHMAC a) sstr (SecretValueKey v) = Inl ErrInvalidKeyType"
  by (simp add: Sign_def)

lemma SignedString_SecretValueKey:
  "Method t = SigningMethodHMAC a \<Longrightarrow> SignedString L t (SecretValueKey v) \<noteq> Inr tokenString"
  by (simp add: SignedString_def Sign_SecretValueKey split: sum.splits)

lemma Verify_HMAC_SecretValueKey:
  "Verify L (SigningMethodHMAC a) sstr sig (SecretValueKey v) = Some ErrInvalidKeyType"
  by (simp add: Verify_def)

lemma keyFunc_Inr:
  "keyFunc jm token = Inr k \<Longrightarrow> (\<exists>a v. Method token = SigningMethodHMAC a \<and> k = SecretValueKey v)"
  by (auto simp: keyFunc_def split: SigningMethod.splits option.splits hval.splits)

lemma signature_flag_set: "f OR ValidationErrorSignatureInvalid \<noteq> (0::32 word)"
  by (simp add: ValidationErrorSignatureInvalid_def or_eq_0_iff)

lemma ValidateToken_not_Inr: "ValidateToken L jm tokenString \<noteq> Inr token"
proof (cases "ParseUnverified L tokenString")
  case (Inl e)
  then show ?thesis by (simp add: ValidateToken_def Parse_def)
next
  case (Inr tp)
  obtain t parts where tp: "tp = (t, parts)" by (cases tp)
  show ?thesis
  proof (cases "keyFunc jm t")
    case (Inl e)
    with Inr tp show ?thesis
      by (simp add: ValidateToken_def Parse_def split: error.splits)
  next
    case (Inr k)
    from keyFunc_Inr[OF this] obtain a v where
      m: "Method t = SigningMethodHMAC a" and k: "k = SecretValueKey v" by blast
    from \<open>ParseUnverified L tokenString = Inr tp\<close> tp Inr m k show ?thesis
      by (simp add: ValidateToken_def Parse_def Let_def Verify_HMAC_SecretValueKey signature_flag_set
               split: prod.splits option.splits error.splits)
  qed
qed

text \<open>
  C5 asks that signing a claim set and validating the token at once succeeds and gives
  the claims back. On the code neither step ever succeeds: \<open>SignToken\<close> hands the
  library \<open>activeSecret.Value\<close>, whose dynamic type is \<open>SecretValue\<close>, and the library's
  HMAC method accepts a \<open>[]byte\<close> only; \<open>ValidateToken\<close>'s key function returns a
  \<open>SecretValue\<close> as well. For every codec, manager, claim set and token string:
\<close>

theorem SignToken_ValidateToken_roundtrip_fails:
  "SignToken L jm claims \<noteq> Inr tokenString \<and> ValidateToken L jm tokenString \<noteq> Inr token"
  by (simp add: SignToken_def Let_def NewWithClaims_def SignedString_SecretValueKey
        ValidateToken_not_Inr split: option.splits)

lemma SignToken_example:
  "SignToken exampleCodec exampleManager [1, 2, 3] = Inl ErrInvalidKeyType"
  by (simp add: SignToken_def SignedString_def SigningString_def Sign_def NewWithClaims_def
        Let_def exampleManager_def exampleCodec_def)


subsection \<open>Validation\<close>

lemma keyFunc_other:
  "Method token = SigningMethodOther a \<Longrightarrow>
   keyFunc jm token = Inl (New (''unexpected signing method: '' @ fmt_v (Header token ''alg'')))"
  by (simp add: keyFunc_def)

lemma GetSigningMethod_other:
  "alg \<notin> {''HS256'', ''HS384'', ''HS512''} \<Longrightarrow> GetSigningMethod alg = Some m \<Longrightarrow> m = SigningMethodOther alg"
  by (auto simp: GetSigningMethod_def split: if_splits)

lemma ParseUnverified_Inr:
  assumes "ParseUnverified L s = Inr (t, parts)"
  shows "\<exists>hb alg. length parts = 3 \<and> parts = Split s \<and> DecodeSegment L (parts ! 0) = Inr hb \<and>
           UnmarshalHeader L hb = Inr (Header t) \<and> Header t ''alg'' = Some (HString alg) \<and>
           GetSigningMethod alg = Some (Method t)"
  using assms
  by (auto simp: ParseUnverified_def Let_def
           split: if_splits sum.splits option.splits hval.splits)

text \<open>
  C6: take a token string of three segments whose header decodes and declares, as
  \<open>alg\<close>, a name that is none of the HMAC methods. Then \<open>ValidateToken\<close> fails, and with
  an error that is the same for every manager: no secret of the working set has a part
  in it.
\<close>

theorem ValidateToken_non_HMAC:
  assumes "Split s = [h, c, sg]"
    and "DecodeSegment L h = Inr hb"
    and "UnmarshalHeader L hb = Inr hdr"
    and "hdr ''alg'' = Some (HString alg)"
    and "alg \<notin> {''HS256'', ''HS384'', ''HS512''}"
  shows "\<exists>e. \<forall>jm. ValidateToken L jm s = Inl e"
proof (cases "ParseUnverified L s")
  case (Inl e)
  then have "\<forall>jm. ValidateToken L jm s = Inl e"
    by (simp add: ValidateToken_def Parse_def)
  then show ?thesis by blast
next
  case (Inr tp)
  obtain t parts where tp: "tp = (t, parts)" by (cases tp)
  from ParseUnverified_Inr[OF Inr[unfolded tp]] assms
  have hd: "Header t = hdr" and gm: "GetSigningMethod alg = Some (Method t)"
    by auto
  from GetSigningMethod_other[OF assms(5) gm] have m: "Method t = SigningMethodOther alg" .
  have "\<forall>jm. ValidateToken L jm s =
          Inl (ValidationError (Some (New (''unexpected signing method: '' @ alg))) ValidationErrorUnverifiable [])"
    using Inr tp keyFunc_other[OF m] hd assms(4)
    by (simp add: ValidateToken_def Parse_def fmt_v_def)
  then show ?thesis by blast
qed

theorem ValidateToken_non_HMAC_witness:
  "Split ''RS256,k1.c.s'' = [''RS256,k1'', ''c'', ''s''] \<and>
   DecodeSegment exampleCodec ''RS256,k1'' = Inr (bytes_of ''RS256,k1'') \<and>
   UnmarshalHeader exampleCodec (bytes_of ''RS256,k1'') =
     Inr [''alg'' \<mapsto> HString ''RS256'', ''kid'' \<mapsto> HString ''k1''] \<and>
   [''alg'' \<mapsto> HString ''RS256'', ''kid'' \<mapsto> HString ''k1''] ''alg'' = Some (HString ''RS256'') \<and>
   ''RS256'' \<notin> {''HS256'', ''HS384'', ''HS512''} \<and>
   (\<exists>e. \<forall>jm. ValidateToken exampleCodec jm ''RS256,k1.c.s'' = Inl e)"
proof -
  have h1: "Split ''RS256,k1.c.s'' = [''RS256,k1'', ''c'', ''s'']" by simp
  have h2: "DecodeSegment exampleCodec ''RS256,k1'' = Inr (bytes_of ''RS256,k1'')"
    by (simp add: exampleCodec_def)
  have h3: "UnmarshalHeader exampleCodec (bytes_of ''RS256,k1'') =
              Inr [''alg'' \<mapsto> HString ''RS256'', ''kid'' \<mapsto> HString ''k1'']"
    by (simp add: exampleCodec_def)
  have h4: "[''alg'' \<mapsto> HString ''RS256'', ''kid'' \<mapsto> HString ''k1''] ''alg'' = Some (HString ''RS256'')"
    by simp
  have h5: "''RS256'' \<notin> {''HS256'', ''HS384'', ''HS512''}" by simp
  from ValidateToken_non_HMAC[OF h1 h2 h3 h4 h5] h1 h2 h3 h4 h5 show ?thesis by blast
qed

lemma Parse_keyFunc_error:
  assumes "ParseUnverified L s = Inr (t, parts)" and "keyFunc jm t = Inl (New msg)"
  shows "ValidateToken L jm s = Inl (ValidationError (Some (New msg)) ValidationErrorUnverifiable [])"
  using assms by (simp add: ValidateToken_def Parse_def)

lemma find_None_ID: "k \<notin> ID ` set xs \<Longrightarrow> find (\<lambda>secret. ID secret = k) xs = None"
  by (induction xs) auto

lemma keyFunc_unknown_kid:
  assumes "Method t = SigningMethodHMAC a" and "Header t ''kid'' = Some (HString k)"
    and "k \<notin> ID ` set (GetSecrets jm)"
  shows "keyFunc jm t = Inl (notFound k)"
  using assms by (simp add: keyFunc_def find_None_ID)

lemma flags_distinct: "ValidationErrorMalformed \<noteq> ValidationErrorUnverifiable"
  by (simp add: ValidationErrorMalformed_def ValidationErrorUnverifiable_def)

lemma notFound_inject: "(notFound k = notFound k') = (k = k')"
  by (simp add: notFound_def)

lemma notFound_not_unexpected: "New (''unexpected signing method: '' @ a) \<noteq> notFound k"
  by (simp add: notFound_def)

text \<open>A token that is not well-formed is rejected by the parser, flagged malformed.\<close>

lemma ParseUnverified_not_wellFormed:
  assumes "\<not> wellFormed L s"
  shows "\<exists>i msg. ParseUnverified L s = Inl (ValidationError i ValidationErrorMalformed msg)"
  using assms
  by (auto simp: wellFormed_def ParseUnverified_def Let_def NewValidationError_def
           split: sum.splits)

text \<open>
  What \<open>ValidateToken\<close> returns for a well-formed token whose header has no string
  \<open>kid\<close>, by the header's \<open>alg\<close>.
\<close>

lemma ValidateToken_no_kid:
  assumes "Split s = [h, c, sg]" and "DecodeSegment L h = Inr hb"
    and "UnmarshalHeader L hb = Inr hdr" and "DecodeSegment L c = Inr cb"
    and "UnmarshalClaims L cb = Inr cl" and "\<forall>k. hdr ''kid'' \<noteq> Some (HString k)"
  shows "ValidateToken L jm s =
           Inl (case hdr ''alg'' of
                  Some (HString alg) \<Rightarrow>
                    (case GetSigningMethod alg of
                       None \<Rightarrow>
                         ValidationError None ValidationErrorUnverifiable
                           ''signing method (alg) is unavailable.''
                     | Some (SigningMethodHMAC _) \<Rightarrow> unknownKeyError []
                     | Some (SigningMethodOther _) \<Rightarrow>
                         ValidationError (Some (New (''unexpected signing method: '' @ alg)))
                           ValidationErrorUnverifiable [])
                | _ \<Rightarrow>
                    ValidationError None ValidationErrorUnverifiable
                      ''signing method (alg) is unspecified.'')"
  using assms
  by (auto simp: ValidateToken_def Parse_def ParseUnverified_def keyFunc_def Let_def fmt_v_def
        NewValidationError_def unknownKeyError_def notFound_def
        split: option.splits hval.splits SigningMethod.splits)

lemma GetSigningMethod_HMAC:
  "(\<exists>a. GetSigningMethod alg = Some (SigningMethodHMAC a)) = (alg \<in> {''HS256'', ''HS384'', ''HS512''})"
  by (auto simp: GetSigningMethod_def)

text \<open>
  C7, as the code has it. A token that is not well-formed fails with the library's
  validation error flagged malformed, which is never the unknown-key error. A
  well-formed token whose header has no string \<open>kid\<close> fails as well, with an error
  that is not flagged malformed: the library's or the key function's algorithm error
  when the header's \<open>alg\<close> is not one of the HMAC methods, and, when it is one, the very
  error a present, empty \<open>kid\<close> gets that matches no secret. That error differs from the
  unknown-key error of every non-empty \<open>kid\<close>, by the \<open>kid\<close> its message quotes. Last,
  the unknown-key error is what a present \<open>kid\<close> gets that no secret of the working set
  carries.
\<close>

theorem ValidateToken_kid_errors:
  "(\<not> wellFormed L s \<longrightarrow>
      (\<exists>i msg. ValidateToken L jm s = Inl (ValidationError i ValidationErrorMalformed msg)) \<and>
      (\<forall>k. ValidateToken L jm s \<noteq> Inl (unknownKeyError k))) \<and>
   (Split s = [h, c, sg] \<and> DecodeSegment L h = Inr hb \<and> UnmarshalHeader L hb = Inr hdr \<and>
    DecodeSegment L c = Inr cb \<and> UnmarshalClaims L cb = Inr cl \<and>
    (\<forall>k. hdr ''kid'' \<noteq> Some (HString k)) \<longrightarrow>
      ValidateToken L jm s =
        Inl (case hdr ''alg'' of
               Some (HString alg) \<Rightarrow>
                 (case GetSigningMethod alg of
                    None \<Rightarrow>
                      ValidationError None ValidationErrorUnverifiable
                        ''signing method (alg) is unavailable.''
                  | Some (SigningMethodHMAC _) \<Rightarrow> unknownKeyError []
                  | Some (SigningMethodOther _) \<Rightarrow>
                      ValidationError (Some (New (''unexpected signing method: '' @ alg)))
                        ValidationErrorUnverifiable [])
             | _ \<Rightarrow>
                 ValidationError None ValidationErrorUnverifiable
                   ''signing method (alg) is unspecified.'') \<and>
      (\<forall>i msg. ValidateToken L jm s \<noteq> Inl (ValidationError i ValidationErrorMalformed msg)) \<and>
      (\<forall>k. k \<noteq> [] \<longrightarrow> ValidateToken L jm s \<noteq> Inl (unknownKeyError k)) \<and>
      ((ValidateToken L jm s = Inl (unknownKeyError [])) =
         (\<exists>alg. hdr ''alg'' = Some (HString alg) \<and> alg \<in> {''HS256'', ''HS384'', ''HS512''}))) \<and>
   (ParseUnverified L s = Inr (t, parts) \<and> Method t = SigningMethodHMAC a \<and>
    Header t ''kid'' = Some (HString k) \<and> k \<notin> ID ` set (GetSecrets jm) \<longrightarrow>
      ValidateToken L jm s = Inl (unknownKeyError k))"
proof (intro conjI impI)
  assume nw: "\<not> wellFormed L s"
  from ParseUnverified_not_wellFormed[OF nw] obtain i msg where
    pu: "ParseUnverified L s = Inl (ValidationError i ValidationErrorMalformed msg)" by blast
  then have v: "ValidateToken L jm s = Inl (ValidationError i ValidationErrorMalformed msg)"
    by (simp add: ValidateToken_def Parse_def)
  then show "\<exists>i msg. ValidateToken L jm s = Inl (ValidationError i ValidationErrorMalformed msg)"
    by blast
  from v flags_distinct show "\<forall>k. ValidateToken L jm s \<noteq> Inl (unknownKeyError k)"
    by (simp add: unknownKeyError_def)
next
  assume hyp: "Split s = [h, c, sg] \<and> DecodeSegment L h = Inr hb \<and> UnmarshalHeader L hb = Inr hdr \<and>
    DecodeSegment L c = Inr cb \<and> UnmarshalClaims L cb = Inr cl \<and>
    (\<forall>k. hdr ''kid'' \<noteq> Some (HString k))"
  let ?E = "case hdr ''alg'' of
               Some (HString alg) \<Rightarrow>
                 (case GetSigningMethod alg of
                    None \<Rightarrow>
                      ValidationError None ValidationErrorUnverifiable
                        ''signing method (alg) is unavailable.''
                  | Some (SigningMethodHMAC _) \<Rightarrow> unknownKeyError []
                  | Some (SigningMethodOther _) \<Rightarrow>
                      ValidationError (Some (New (''unexpected signing method: '' @ alg)))
                        ValidationErrorUnverifiable [])
             | _ \<Rightarrow>
                 ValidationError None ValidationErrorUnverifiable
                   ''signing method (alg) is unspecified.''"
  from hyp have v: "ValidateToken L jm s = Inl ?E"
    by (intro ValidateToken_no_kid) blast+
  have shape: "\<exists>i msg. ?E = ValidationError i ValidationErrorUnverifiable msg"
    by (auto simp: unknownKeyError_def split: option.splits hval.splits SigningMethod.splits)
  have nonempty: "\<forall>k. k \<noteq> [] \<longrightarrow> ?E \<noteq> unknownKeyError k"
    using notFound_inject notFound_not_unexpected
    by (auto simp: unknownKeyError_def split: option.splits hval.splits SigningMethod.splits)
  have empty: "(?E = unknownKeyError []) =
         (\<exists>alg. hdr ''alg'' = Some (HString alg) \<and> alg \<in> {''HS256'', ''HS384'', ''HS512''})"
  proof (cases "hdr ''alg''")
    case None
    then show ?thesis by (simp add: unknownKeyError_def)
  next
    case (Some v)
    show ?thesis
    proof (cases v)
      case (HOther r)
      with Some show ?thesis by (simp add: unknownKeyError_def)
    next
      case (HString alg)
      show ?thesis
      proof (cases "GetSigningMethod alg")
        case None
        with Some HString GetSigningMethod_HMAC[of alg] show ?thesis
          by (simp add: unknownKeyError_def)
      next
        case (Some m)
        with \<open>hdr ''alg'' = Some v\<close> HString GetSigningMethod_HMAC[of alg] notFound_not_unexpected
        show ?thesis
          by (cases m) (auto simp: unknownKeyError_def)
      qed
    qed
  qed
  show "ValidateToken L jm s = Inl ?E" by (rule v)
  from shape flags_distinct
  show "\<forall>i msg. ValidateToken L jm s \<noteq> Inl (ValidationError i ValidationErrorMalformed msg)"
    unfolding v by auto
  from nonempty show "\<forall>k. k \<noteq> [] \<longrightarrow> ValidateToken L jm s \<noteq> Inl (unknownKeyError k)"
    unfolding v by simp
  from empty show "(ValidateToken L jm s = Inl (unknownKeyError [])) =
         (\<exists>alg. hdr ''alg'' = Some (HString alg) \<and> alg \<in> {''HS256'', ''HS384'', ''HS512''})"
    unfolding v by simp
next
  assume h: "ParseUnverified L s = Inr (t, parts) \<and> Method t = SigningMethodHMAC a \<and>
      Header t ''kid'' = Some (HString k) \<and> k \<notin> ID ` set (GetSecrets jm)"
  then have "keyFunc jm t = Inl (notFound k)" by (blast intro: keyFunc_unknown_kid)
  with h show "ValidateToken L jm s = Inl (unknownKeyError k)"
    by (simp add: notFound_def unknownKeyError_def Parse_keyFunc_error)
qed

text \<open>
  Four tokens under the example codec: a single segment, an HS256 token and an RS256
  token without \<open>kid\<close>, and an HS256 token whose \<open>kid\<close> \<open>k1\<close> is not in the working set.
\<close>

lemma example_parse_unknown_kid:
  "ParseUnverified exampleCodec ''HS256,k1.c.s'' =
     Inr (exampleTokenUnknownKid, [''HS256,k1'', ''c'', ''s''])"
  by (simp add: ParseUnverified_def exampleCodec_def bytes_of_def GetSigningMethod_def
        exampleTokenUnknownKid_def)

lemma example_decode_claims:
  "DecodeSegment exampleCodec ''c'' = Inr (bytes_of ''c'') \<and>
   UnmarshalClaims exampleCodec (bytes_of ''c'') = Inr (bytes_of ''c'')"
  by (simp add: exampleCodec_def)

lemma example_decode_HS256:
  "Split ''HS256.c.s'' = [''HS256'', ''c'', ''s''] \<and>
   DecodeSegment exampleCodec ''HS256'' = Inr (bytes_of ''HS256'') \<and>
   UnmarshalHeader exampleCodec (bytes_of ''HS256'') = Inr [''alg'' \<mapsto> HString ''HS256'']"
  by (simp add: exampleCodec_def bytes_of_def)

lemma example_decode_RS256:
  "Split ''RS256.c.s'' = [''RS256'', ''c'', ''s''] \<and>
   DecodeSegment exampleCodec ''RS256'' = Inr (bytes_of ''RS256'') \<and>
   UnmarshalHeader exampleCodec (bytes_of ''RS256'') = Inr [''alg'' \<mapsto> HString ''RS256'']"
  by (simp add: exampleCodec_def bytes_of_def)

theorem ValidateToken_kid_errors_witness:
  "\<not> wellFormed exampleCodec ''abc'' \<and>
   ValidateToken exampleCodec exampleManager ''abc'' =
     Inl (ValidationError None ValidationErrorMalformed ''token contains an invalid number of segments'') \<and>
   Split ''HS256.c.s'' = [''HS256'', ''c'', ''s''] \<and>
   DecodeSegment exampleCodec ''HS256'' = Inr (bytes_of ''HS256'') \<and>
   UnmarshalHeader exampleCodec (bytes_of ''HS256'') = Inr [''alg'' \<mapsto> HString ''HS256''] \<and>
   DecodeSegment exampleCodec ''c'' = Inr (bytes_of ''c'') \<and>
   UnmarshalClaims exampleCodec (bytes_of ''c'') = Inr (bytes_of ''c'') \<and>
   (\<forall>k. [''alg'' \<mapsto> HString ''HS256''] ''kid'' \<noteq> Some (HString k)) \<and>
   ValidateToken exampleCodec exampleManager ''HS256.c.s'' = Inl (unknownKeyError []) \<and>
   Split ''RS256.c.s'' = [''RS256'', ''c'', ''s''] \<and>
   DecodeSegment exampleCodec ''RS256'' = Inr (bytes_of ''RS256'') \<and>
   UnmarshalHeader exampleCodec (bytes_of ''RS256'') = Inr [''alg'' \<mapsto> HString ''RS256''] \<and>
   (\<forall>k. [''alg'' \<mapsto> HString ''RS256''] ''kid'' \<noteq> Some (HString k)) \<and>
   ValidateToken exampleCodec exampleManager ''RS256.c.s'' =
     Inl (ValidationError (Some (New ''unexpected signing method: RS256''))
            ValidationErrorUnverifiable []) \<and>
   ParseUnverified exampleCodec ''HS256,k1.c.s'' =
     Inr (exampleTokenUnknownKid, [''HS256,k1'', ''c'', ''s'']) \<and>
   Method exampleTokenUnknownKid = SigningMethodHMAC ''HS256'' \<and>
   Header exampleTokenUnknownKid ''kid'' = Some (HString ''k1'') \<and>
   ''k1'' \<notin> ID ` set (GetSecrets exampleManager) \<and>
   ValidateToken exampleCodec exampleManager ''HS256,k1.c.s'' = Inl (unknownKeyError ''k1'')"
proof -
  have nw: "\<not> wellFormed exampleCodec ''abc''"
    by (simp add: wellFormed_def)
  have nokid1: "\<forall>k. [''alg'' \<mapsto> HString ''HS256''] ''kid'' \<noteq> Some (HString k)" by simp
  have nokid2: "\<forall>k. [''alg'' \<mapsto> HString ''RS256''] ''kid'' \<noteq> Some (HString k)" by simp
  have m2: "Method exampleTokenUnknownKid = SigningMethodHMAC ''HS256''"
    by (simp add: exampleTokenUnknownKid_def)
  have kid: "Header exampleTokenUnknownKid ''kid'' = Some (HString ''k1'')"
    by (simp add: exampleTokenUnknownKid_def)
  have unknown: "''k1'' \<notin> ID ` set (GetSecrets exampleManager)"
    by (simp add: GetSecrets_def exampleManager_def)
  have v0: "ValidateToken exampleCodec exampleManager ''abc'' =
              Inl (ValidationError None ValidationErrorMalformed ''token contains an invalid number of segments'')"
    using ValidateToken_kid_errors[of exampleCodec "''abc''" exampleManager] nw
    by (simp add: ValidateToken_def Parse_def ParseUnverified_def NewValidationError_def)
  have v1: "ValidateToken exampleCodec exampleManager ''HS256.c.s'' = Inl (unknownKeyError [])"
    using ValidateToken_kid_errors
            [of exampleCodec "''HS256.c.s''" exampleManager "''HS256''" "''c''" "''s''"
                "bytes_of ''HS256''" "[''alg'' \<mapsto> HString ''HS256'']" "bytes_of ''c''" "bytes_of ''c''"]
          example_decode_HS256 example_decode_claims nokid1
    by (simp add: GetSigningMethod_def)
  have v2: "ValidateToken exampleCodec exampleManager ''RS256.c.s'' =
              Inl (ValidationError (Some (New ''unexpected signing method: RS256''))
                     ValidationErrorUnverifiable [])"
    using ValidateToken_kid_errors
            [of exampleCodec "''RS256.c.s''" exampleManager "''RS256''" "''c''" "''s''"
                "bytes_of ''RS256''" "[''alg'' \<mapsto> HString ''RS256'']" "bytes_of ''c''" "bytes_of ''c''"]
          example_decode_RS256 example_decode_claims nokid2
    by (simp add: GetSigningMethod_def)
  have v3: "ValidateToken exampleCodec exampleManager ''HS256,k1.c.s'' = Inl (unknownKeyError ''k1'')"
    using ValidateToken_kid_errors
            [of exampleCodec "''HS256,k1.c.s''" exampleManager "''x''" "''x''" "''x''" "[]" "Map.empty"
                "[]" "[]" exampleTokenUnknownKid "[''HS256,k1'', ''c'', ''s'']" "''HS256''" "''k1''"]
          example_parse_unknown_kid m2 kid unknown
    by blast
  from nw v0 v1 v2 v3 nokid1 nokid2 m2 kid unknown
    example_decode_HS256 example_decode_RS256 example_decode_claims example_parse_unknown_kid
  show ?thesis by blast
qed

text \<open>
  The specification's sentence fails: a token without \<open>kid\<close> and a token whose \<open>kid\<close> is
  present, empty and unknown get the very same error, from the key function and from
  \<open>ValidateToken\<close>, and that error is the unknown-key error, not one flagged malformed.
  An RS256 token without \<open>kid\<close> gets the key function's algorithm error, not flagged
  malformed either.
\<close>

theorem ValidateToken_missing_kid_counterexample:
  "keyFunc exampleManager
     \<lparr>Raw = [], Method = SigningMethodHMAC ''HS256'', Header = [''alg'' \<mapsto> HString ''HS256''],
      Claims = ([] :: byte list), Signature = [], Valid = False\<rparr> = Inl (notFound []) \<and>
   keyFunc exampleManager
     \<lparr>Raw = [], Method = SigningMethodHMAC ''HS256'',
      Header = [''alg'' \<mapsto> HString ''HS256'', ''kid'' \<mapsto> HString []],
      Claims = ([] :: byte list), Signature = [], Valid = False\<rparr> = Inl (notFound []) \<and>
   ValidateToken exampleCodec exampleManager ''HS256.c.s'' =
     Inl (ValidationError (Some (notFound [])) ValidationErrorUnverifiable []) \<and>
   ValidateToken exampleCodec exampleManager ''HS256,.c.s'' =
     Inl (ValidationError (Some (notFound [])) ValidationErrorUnverifiable []) \<and>
   ValidateToken exampleCodec exampleManager ''RS256.c.s'' =
     Inl (ValidationError (Some (New ''unexpected signing method: RS256''))
            ValidationErrorUnverifiable []) \<and>
   ValidationErrorUnverifiable \<noteq> ValidationErrorMalformed"
  by (simp add: ValidateToken_def Parse_def ParseUnverified_def keyFunc_def GetSecrets_def
        GetSigningMethod_def notFound_def bytes_of_def fmt_v_def exampleCodec_def exampleManager_def
        ValidationErrorUnverifiable_def ValidationErrorMalformed_def)

subsection \<open>Identifiers\<close>

text \<open>
  The identifier of the one-byte secret 7, as \<open>generateSecretId\<close> computes it in Go:
  the first twelve hexadecimal digits of HMAC-SHA256 under the empty key.
\<close>

lemma generateSecretId_example: "generateSecretId [7] = ''ee921c1c17c2''"
  by code_simp

text \<open>
  C9: the identifier of a generated secret is \<open>generateSecretId\<close> of its value and of
  nothing else, so two generated secrets with equal values have equal identifiers,
  whatever the clock and the store answered.
\<close>

theorem generateSecretId_deterministic:
  assumes "generateAndStoreSecret w1 = Inr s1" and "generateAndStoreSecret w2 = Inr s2"
    and "Value s1 = Value s2"
  shows "ID s1 = generateSecretId (Value s1) \<and> ID s2 = generateSecretId (Value s2) \<and> ID s1 = ID s2"
  using generateAndStoreSecret_Inr[OF assms(1)] generateAndStoreSecret_Inr[OF assms(2)] assms(3)
  by simp

theorem generateSecretId_deterministic_witness:
  "generateAndStoreSecret exampleWorld =
     Inr \<lparr>ID = generateSecretId [7], Value = [7], CreatedAt = 100, Active = True\<rparr> \<and>
   generateAndStoreSecret exampleEarlyWorld =
     Inr \<lparr>ID = generateSecretId [7], Value = [7], CreatedAt = 5, Active = True\<rparr> \<and>
   Value \<lparr>ID = generateSecretId [7], Value = [7], CreatedAt = 100, Active = True\<rparr> =
     Value \<lparr>ID = generateSecretId [7], Value = [7], CreatedAt = 5, Active = True\<rparr> \<and>
   ID \<lparr>ID = generateSecretId [7], Value = [7], CreatedAt = 100, Active = True\<rparr> =
     ID \<lparr>ID = generateSecretId [7], Value = [7], CreatedAt = 5, Active = True\<rparr>"
proof -
  have g1: "generateAndStoreSecret exampleWorld =
              Inr \<lparr>ID = generateSecretId [7], Value = [7], CreatedAt = 100, Active = True\<rparr>"
    by (simp add: generateAndStoreSecret_def exampleWorld_def)
  have g2: "generateAndStoreSecret exampleEarlyWorld =
              Inr \<lparr>ID = generateSecretId [7], Value = [7], CreatedAt = 5, Active = True\<rparr>"
    by (simp add: generateAndStoreSecret_def exampleEarlyWorld_def)
  have v: "Value \<lparr>ID = generateSecretId [7], Value = [7], CreatedAt = 100, Active = True\<rparr> =
           Value \<lparr>ID = generateSecretId [7], Value = [7], CreatedAt = 5, Active = True\<rparr>"
    by simp
  from generateSecretId_deterministic[OF g1 g2 v] g1 g2 v show ?thesis by blast
qed

subsection \<open>Export\<close>

lemma unat_hi: "unat (drop_bit 4 (v::byte)) = unat v div 16"
  by (simp add: unat_drop_bit_eq drop_bit_eq_div unat_div)

lemma unat_lo: "unat ((v::byte) AND 0x0f) = unat v mod 16"
proof -
  have "(0x0f::byte) = mask 4" by (simp add: mask_eq_exp_minus_1)
  then have "v AND 0x0f = take_bit 4 v" by (simp add: take_bit_eq_mask)
  then show ?thesis by (simp add: unsigned_take_bit_eq take_bit_eq_mod unat_mod)
qed

lemma hextable_digits: "list_all (\<lambda>n. hextable ! n = hexDigit n) [0..<16]"
  by code_simp

lemma hextable_nth: "n < 16 \<Longrightarrow> hextable ! n = hexDigit n"
  using hextable_digits by (simp add: list_all_iff)

lemma unat_byte_div_16: "unat (v::byte) div 16 < 16"
  using unsigned_less[of v, where 'a = nat] by simp

lemma EncodeToString_lowercaseHex: "EncodeToString bs = lowercaseHex bs"
  by (induction bs) (simp_all add: lowercaseHex_def unat_hi unat_lo hextable_nth unat_byte_div_16)

text \<open>
  C10: \<open>ExportActiveSecretHex\<close> returns the empty string when there is no active secret
  and the lowercase hexadecimal encoding of the active secret's value otherwise, and
  leaves the manager as it was.
\<close>

theorem ExportActiveSecretHex_spec:
  "ExportActiveSecretHex jm =
     (case activeSecret jm of None \<Rightarrow> [] | Some a \<Rightarrow> lowercaseHex (Value a), jm)"
  by (simp add: ExportActiveSecretHex_def EncodeToString_lowercaseHex split: option.splits)

lemma ExportActiveSecretHex_example:
  "ExportActiveSecretHex
     (exampleManager\<lparr>activeSecret := Some \<lparr>ID = ''k'', Value = [0x00, 0x0a, 0xff, 0x7b], CreatedAt = 1, Active = True\<rparr>\<rparr>) =
   (''000aff7b'',
    exampleManager\<lparr>activeSecret := Some \<lparr>ID = ''k'', Value = [0x00, 0x0a, 0xff, 0x7b], CreatedAt = 1, Active = True\<rparr>\<rparr>)"
  by (simp add: ExportActiveSecretHex_def hextable_def)

end
